theory Spec2Isabelle
  imports Main
begin

section \<open>Data model\<close>

text \<open>
  The views of \<^verbatim>\<open>farm/views.py\<close> query three tables through the ORM. The model
  classes themselves (\<^verbatim>\<open>models.py\<close>) are not among the sources, so the rows are
  modelled from the data model of the specification: a Farm has an id and one owning user
  reference, a Motor has an id and a farm reference, a Valve has an id and a motor
  reference, a user has an id and a role. Further domain fields are opaque and are left
  out.
\<close>

type_synonym pk = nat

text \<open>Modelled from the spec: the User entity (id and role) of the identity provider.\<close>

record user =
  user_pk :: pk
  role :: string

text \<open>
  Modelled from the spec: the Farm row of \<^verbatim>\<open>models.py\<close>. The source addresses the
  owning reference as \<^verbatim>\<open>owner\<close> in lines 23, 43, 56, 59, 62 and 79, and as
  \<^verbatim>\<open>user\<close> in lines 98, 105, 113, 121, 129 and 137; it is one reference here, as in
  the specification.
\<close>

record farm =
  farm_pk :: pk
  farm_owner :: pk

text \<open>Modelled from the spec: the Motor row, with its \<^verbatim>\<open>farm_id\<close> column.\<close>

record motor =
  motor_pk :: pk
  motor_farm_id :: pk

text \<open>Modelled from the spec: the Valve row, with its \<^verbatim>\<open>motor_id\<close> column.\<close>

record valve =
  valve_pk :: pk
  valve_motor_id :: pk

text \<open>
  Modelled from the spec: the relational store, one list of rows per table in storage
  order, and for each table that the views write the highest key its auto-increment has
  issued so far. Deleting a row does not lower that key.
\<close>

record store =
  users :: "user list"
  farms :: "farm list"
  motors :: "motor list"
  valves :: "valve list"
  farm_seq :: pk
  motor_seq :: pk
  valve_seq :: pk

text \<open>Values of a request payload, with Python's truth test on them.\<close>

datatype pyval = PNone | PBool bool | PInt int | PStr string

fun truthy :: "pyval \<Rightarrow> bool" where
  "truthy PNone = False"
| "truthy (PBool b) = b"
| "truthy (PInt n) = (n \<noteq> 0)"
| "truthy (PStr s) = (s \<noteq> [])"

text \<open>\<^verbatim>\<open>d.get(k)\<close>: the value stored under the key, \<^verbatim>\<open>None\<close> when there is none.\<close>

definition dict_get :: "(string \<rightharpoonup> pyval) \<Rightarrow> string \<Rightarrow> pyval" where
  "dict_get d k = (case d k of None \<Rightarrow> PNone | Some v \<Rightarrow> v)"

text \<open>
  What a view reads of a request: the authenticated caller (\<^verbatim>\<open>self.request.user\<close>),
  the payload (\<^verbatim>\<open>self.request.data\<close>) and the path parameters (\<^verbatim>\<open>self.kwargs\<close>).
\<close>

record request =
  req_user :: user
  req_data :: "string \<rightharpoonup> pyval"
  kwargs :: "string \<rightharpoonup> pk"

datatype error = NotFound | IntegrityError | ValueError

section \<open>The module namespace\<close>

text \<open>
  The top-level \<^verbatim>\<open>class\<close> and \<^verbatim>\<open>def\<close> statements of \<^verbatim>\<open>views.py\<close>, each tagged
  with the line it starts at. Executing the module binds each name in turn, so a later
  statement replaces the binding of an earlier one with the same name.
\<close>

datatype py_def =
    IsAdminOrManagerOrOwner_l10
  | FarmListCreateView_l28
  | FarmDetailView_l65
  | create_farm_page_l84
  | FarmListCreateView_l93
  | FarmDetailView_l100
  | MotorListCreateView_l107
  | MotorDetailView_l115
  | ValveListCreateView_l123
  | ValveDetailView_l131
  | farm_management_l143

definition views_py :: "(string \<times> py_def) list" where
  "views_py =
    [(''IsAdminOrManagerOrOwner'', IsAdminOrManagerOrOwner_l10),
     (''FarmListCreateView'', FarmListCreateView_l28),
     (''FarmDetailView'', FarmDetailView_l65),
     (''create_farm_page'', create_farm_page_l84),
     (''FarmListCreateView'', FarmListCreateView_l93),
     (''FarmDetailView'', FarmDetailView_l100),
     (''MotorListCreateView'', MotorListCreateView_l107),
     (''MotorDetailView'', MotorDetailView_l115),
     (''ValveListCreateView'', ValveListCreateView_l123),
     (''ValveDetailView'', ValveDetailView_l131),
     (''farm_management'', farm_management_l143)]"

definition bind_name :: "(string \<rightharpoonup> py_def) \<Rightarrow> string \<times> py_def \<Rightarrow> (string \<rightharpoonup> py_def)" where
  "bind_name ns b = ns(fst b \<mapsto> snd b)"

definition module_namespace :: "string \<rightharpoonup> py_def" where
  "module_namespace = foldl bind_name Map.empty views_py"

section \<open>Access policy\<close>

text \<open>
  \<^verbatim>\<open>IsAdminOrManagerOrOwner.has_object_permission\<close> (lines 18 to 23). The class is
  listed only by the Farm views of lines 28 and 65, so the object is a Farm.
\<close>

definition has_object_permission :: "request \<Rightarrow> farm \<Rightarrow> bool" where
  "has_object_permission req obj =
    (if role (req_user req) \<in> set [''admin'', ''manager''] then True
     else farm_owner obj = user_pk (req_user req))"

section \<open>Query scoping\<close>

text \<open>First \<^verbatim>\<open>FarmListCreateView.get_queryset\<close>, lines 36 to 43.\<close>

definition FarmListCreateView1_get_queryset :: "request \<Rightarrow> store \<Rightarrow> farm list" where
  "FarmListCreateView1_get_queryset req st =
    (let u = req_user req in
     if role u \<in> set [''admin'', ''manager''] then farms st
     else filter (\<lambda>f. farm_owner f = user_pk u) (farms st))"

text \<open>First \<^verbatim>\<open>FarmDetailView.get_queryset\<close>, lines 72 to 79.\<close>

definition FarmDetailView1_get_queryset :: "request \<Rightarrow> store \<Rightarrow> farm list" where
  "FarmDetailView1_get_queryset req st =
    (let u = req_user req in
     if role u \<in> set [''admin'', ''manager''] then farms st
     else filter (\<lambda>f. farm_owner f = user_pk u) (farms st))"

text \<open>Second \<^verbatim>\<open>FarmListCreateView.get_queryset\<close>, lines 97 and 98.\<close>

definition FarmListCreateView2_get_queryset :: "request \<Rightarrow> store \<Rightarrow> farm list" where
  "FarmListCreateView2_get_queryset req st =
    filter (\<lambda>f. farm_owner f = user_pk (req_user req)) (farms st)"

text \<open>Second \<^verbatim>\<open>FarmDetailView.get_queryset\<close>, lines 104 and 105.\<close>

definition FarmDetailView2_get_queryset :: "request \<Rightarrow> store \<Rightarrow> farm list" where
  "FarmDetailView2_get_queryset req st =
    filter (\<lambda>f. farm_owner f = user_pk (req_user req)) (farms st)"

text \<open>
  The lookup \<^verbatim>\<open>farm__user=u\<close> joins a motor with the farm row its \<^verbatim>\<open>farm_id\<close>
  names and compares that farm's owning reference; a motor whose farm row is missing is
  in no such result.
\<close>

definition farm_user_is :: "store \<Rightarrow> pk \<Rightarrow> pk \<Rightarrow> bool" where
  "farm_user_is st fid uid = list_ex (\<lambda>f. farm_pk f = fid \<and> farm_owner f = uid) (farms st)"

definition motor_farm_user_is :: "store \<Rightarrow> pk \<Rightarrow> pk \<Rightarrow> bool" where
  "motor_farm_user_is st mid uid =
    list_ex (\<lambda>m. motor_pk m = mid \<and> farm_user_is st (motor_farm_id m) uid) (motors st)"

text \<open>
  \<^verbatim>\<open>MotorListCreateView.get_queryset\<close>, lines 111 to 113. \<^verbatim>\<open>self.kwargs.get\<close>
  gives \<^verbatim>\<open>None\<close> for a missing path parameter, and no motor has a null farm.
\<close>

definition MotorListCreateView_get_queryset :: "request \<Rightarrow> store \<Rightarrow> motor list" where
  "MotorListCreateView_get_queryset req st =
    (let farm_id = kwargs req ''farm_id'' in
     filter (\<lambda>m. Some (motor_farm_id m) = farm_id
                \<and> farm_user_is st (motor_farm_id m) (user_pk (req_user req))) (motors st))"

text \<open>\<^verbatim>\<open>MotorDetailView.get_queryset\<close>, lines 119 to 121.\<close>

definition MotorDetailView_get_queryset :: "request \<Rightarrow> store \<Rightarrow> motor list" where
  "MotorDetailView_get_queryset req st =
    (let farm_id = kwargs req ''farm_id'' in
     filter (\<lambda>m. Some (motor_farm_id m) = farm_id
                \<and> farm_user_is st (motor_farm_id m) (user_pk (req_user req))) (motors st))"

text \<open>\<^verbatim>\<open>ValveListCreateView.get_queryset\<close>, lines 127 to 129.\<close>

definition ValveListCreateView_get_queryset :: "request \<Rightarrow> store \<Rightarrow> valve list" where
  "ValveListCreateView_get_queryset req st =
    (let motor_id = kwargs req ''motor_id'' in
     filter (\<lambda>v. Some (valve_motor_id v) = motor_id
                \<and> motor_farm_user_is st (valve_motor_id v) (user_pk (req_user req))) (valves st))"

text \<open>\<^verbatim>\<open>ValveDetailView.get_queryset\<close>, lines 135 to 137.\<close>

definition ValveDetailView_get_queryset :: "request \<Rightarrow> store \<Rightarrow> valve list" where
  "ValveDetailView_get_queryset req st =
    (let motor_id = kwargs req ''motor_id'' in
     filter (\<lambda>v. Some (valve_motor_id v) = motor_id
                \<and> motor_farm_user_is st (valve_motor_id v) (user_pk (req_user req))) (valves st))"

section \<open>Writes to the store\<close>

text \<open>
  Modelled from the spec: the key of a new row (the store is not among the sources). The
  auto-increment issues a key above every key it has issued and every key in use, so a key
  freed by a delete is not given out again.
\<close>

definition next_pk :: "pk \<Rightarrow> pk list \<Rightarrow> pk" where
  "next_pk issued ks = Suc (max issued (fold max ks 0))"

text \<open>
  Modelled from the spec: the store's insertion of a Farm row (\<^verbatim>\<open>models.py\<close> and the
  store are not among the sources). A Farm is owned by exactly one existing user, so a
  key that names no user fails with the store's integrity error.
\<close>

definition insert_farm :: "store \<Rightarrow> int \<Rightarrow> error + store" where
  "insert_farm st k =
    (if k \<in> set (map (\<lambda>u. int (user_pk u)) (users st))
     then Inr (st\<lparr>farms := farms st @
                  [\<lparr>farm_pk = next_pk (farm_seq st) (map farm_pk (farms st)),
                    farm_owner = nat k\<rparr>],
                farm_seq := next_pk (farm_seq st) (map farm_pk (farms st))\<rparr>)
     else Inl IntegrityError)"

text \<open>
  Modelled from the spec: the store's reading of a raw value as an integer key. Python's
  \<^verbatim>\<open>int\<close> on text is a builtin and is taken as the parameter \<open>py_int\<close>.
\<close>

fun raw_key :: "(string \<Rightarrow> int option) \<Rightarrow> pyval \<Rightarrow> error + int" where
  "raw_key py_int PNone = Inl IntegrityError"
| "raw_key py_int (PBool b) = Inr (if b then 1 else 0)"
| "raw_key py_int (PInt n) = Inr n"
| "raw_key py_int (PStr s) = (case py_int s of None \<Rightarrow> Inl ValueError | Some n \<Rightarrow> Inr n)"

text \<open>
  Modelled from the spec: \<^verbatim>\<open>FarmSerializer\<close> (\<^verbatim>\<open>serializers.py\<close>) is not among
  the sources. A validated serializer carries the owning reference of its payload, when the
  payload has one (the serializer mirrors the data model field by field), and
  \<^verbatim>\<open>save\<close> writes one Farm row, a keyword argument taking precedence over the
  validated field of the same name.
\<close>

record farm_serializer =
  validated_owner :: "pk option"

datatype save_kwargs = No_kwargs | Owner_kw user | Owner_id_kw pyval

definition FarmSerializer_save ::
  "(string \<Rightarrow> int option) \<Rightarrow> farm_serializer \<Rightarrow> save_kwargs \<Rightarrow> store \<Rightarrow> error + store" where
  "FarmSerializer_save py_int serializer kw st =
    (case kw of
       No_kwargs \<Rightarrow>
         (case validated_owner serializer of
            None \<Rightarrow> Inl IntegrityError
          | Some k \<Rightarrow> insert_farm st (int k))
     | Owner_kw u \<Rightarrow> insert_farm st (int (user_pk u))
     | Owner_id_kw v \<Rightarrow>
         (case raw_key py_int v of Inl e \<Rightarrow> Inl e | Inr k \<Rightarrow> insert_farm st k))"

text \<open>
  Modelled from the spec: \<^verbatim>\<open>MotorSerializer\<close> and \<^verbatim>\<open>ValveSerializer\<close> are not
  among the sources. A validated serializer carries the parent reference of the new row,
  and \<^verbatim>\<open>save\<close> writes the row when the parent exists.
\<close>

record motor_serializer =
  validated_farm :: pk

record valve_serializer =
  validated_motor :: pk

definition MotorSerializer_save :: "motor_serializer \<Rightarrow> store \<Rightarrow> error + store" where
  "MotorSerializer_save serializer st =
    (if validated_farm serializer \<in> set (map farm_pk (farms st))
     then Inr (st\<lparr>motors := motors st @
                  [\<lparr>motor_pk = next_pk (motor_seq st) (map motor_pk (motors st)),
                    motor_farm_id = validated_farm serializer\<rparr>],
                motor_seq := next_pk (motor_seq st) (map motor_pk (motors st))\<rparr>)
     else Inl IntegrityError)"

definition ValveSerializer_save :: "valve_serializer \<Rightarrow> store \<Rightarrow> error + store" where
  "ValveSerializer_save serializer st =
    (if validated_motor serializer \<in> set (map motor_pk (motors st))
     then Inr (st\<lparr>valves := valves st @
                  [\<lparr>valve_pk = next_pk (valve_seq st) (map valve_pk (valves st)),
                    valve_motor_id = validated_motor serializer\<rparr>],
                valve_seq := next_pk (valve_seq st) (map valve_pk (valves st))\<rparr>)
     else Inl IntegrityError)"

section \<open>Create\<close>

text \<open>First \<^verbatim>\<open>FarmListCreateView.perform_create\<close>, lines 45 to 62.\<close>

definition FarmListCreateView1_perform_create ::
  "(string \<Rightarrow> int option) \<Rightarrow> request \<Rightarrow> farm_serializer \<Rightarrow> store \<Rightarrow> error + store" where
  "FarmListCreateView1_perform_create py_int req serializer st =
    (let u = req_user req in
     if role u \<in> set [''admin'', ''manager''] then
       (let owner_id = dict_get (req_data req) ''owner'' in
        if truthy owner_id
        then FarmSerializer_save py_int serializer (Owner_id_kw owner_id) st
        else FarmSerializer_save py_int serializer (Owner_kw u) st)
     else FarmSerializer_save py_int serializer (Owner_kw u) st)"

text \<open>
  The classes of lines 93, 107 and 123 define no \<^verbatim>\<open>perform_create\<close>: they inherit
  the generic one, which calls \<^verbatim>\<open>serializer.save()\<close> with no argument and reads neither
  the caller nor the path parameters.
\<close>

definition FarmListCreateView2_perform_create ::
  "(string \<Rightarrow> int option) \<Rightarrow> request \<Rightarrow> farm_serializer \<Rightarrow> store \<Rightarrow> error + store" where
  "FarmListCreateView2_perform_create py_int req serializer st =
    FarmSerializer_save py_int serializer No_kwargs st"

definition MotorListCreateView_perform_create ::
  "request \<Rightarrow> motor_serializer \<Rightarrow> store \<Rightarrow> error + store" where
  "MotorListCreateView_perform_create req serializer st = MotorSerializer_save serializer st"

definition ValveListCreateView_perform_create ::
  "request \<Rightarrow> valve_serializer \<Rightarrow> store \<Rightarrow> error + store" where
  "ValveListCreateView_perform_create req serializer st = ValveSerializer_save serializer st"

section \<open>Retrieve, update and delete\<close>

text \<open>
  Modelled from the spec: the object lookup of the generic detail views belongs to the
  web framework and is not among the sources. Retrieve, update and delete all begin by
  resolving the id of the path within the view's \<^verbatim>\<open>get_queryset()\<close>, and fail with
  not-found when no row of that collection has the id.
\<close>

definition get_object :: "('o \<Rightarrow> pk) \<Rightarrow> 'o list \<Rightarrow> pk \<Rightarrow> error + 'o" where
  "get_object key queryset k =
    (case find (\<lambda>obj. key obj = k) queryset of
       None \<Rightarrow> Inl NotFound
     | Some obj \<Rightarrow> Inr obj)"

text \<open>
  A detail request: \<open>handler\<close> is what the verb does with the resolved row and the store
  (serialise the row, apply the payload to it, or delete it), once the lookup has succeeded.
\<close>

datatype verb = Retrieve | Update | Destroy

definition FarmDetailView2_request ::
  "(verb \<Rightarrow> farm \<Rightarrow> store \<Rightarrow> 'r) \<Rightarrow> verb \<Rightarrow> request \<Rightarrow> pk \<Rightarrow> store \<Rightarrow> error + 'r" where
  "FarmDetailView2_request handler vb req k st =
    (case get_object farm_pk (FarmDetailView2_get_queryset req st) k of
       Inl e \<Rightarrow> Inl e
     | Inr obj \<Rightarrow> Inr (handler vb obj st))"

definition MotorDetailView_request ::
  "(verb \<Rightarrow> motor \<Rightarrow> store \<Rightarrow> 'r) \<Rightarrow> verb \<Rightarrow> request \<Rightarrow> pk \<Rightarrow> store \<Rightarrow> error + 'r" where
  "MotorDetailView_request handler vb req k st =
    (case get_object motor_pk (MotorDetailView_get_queryset req st) k of
       Inl e \<Rightarrow> Inl e
     | Inr obj \<Rightarrow> Inr (handler vb obj st))"

definition ValveDetailView_request ::
  "(verb \<Rightarrow> valve \<Rightarrow> store \<Rightarrow> 'r) \<Rightarrow> verb \<Rightarrow> request \<Rightarrow> pk \<Rightarrow> store \<Rightarrow> error + 'r" where
  "ValveDetailView_request handler vb req k st =
    (case get_object valve_pk (ValveDetailView_get_queryset req st) k of
       Inl e \<Rightarrow> Inl e
     | Inr obj \<Rightarrow> Inr (handler vb obj st))"

section \<open>The Farm endpoints in effect\<close>

text \<open>
  The Farm endpoints are served by whatever the names \<^verbatim>\<open>FarmListCreateView\<close> and
  \<^verbatim>\<open>FarmDetailView\<close> are bound to once the module has been executed.
\<close>

fun farm_get_queryset_of :: "py_def \<Rightarrow> (request \<Rightarrow> store \<Rightarrow> farm list) option" where
  "farm_get_queryset_of FarmListCreateView_l28 = Some FarmListCreateView1_get_queryset"
| "farm_get_queryset_of FarmDetailView_l65 = Some FarmDetailView1_get_queryset"
| "farm_get_queryset_of FarmListCreateView_l93 = Some FarmListCreateView2_get_queryset"
| "farm_get_queryset_of FarmDetailView_l100 = Some FarmDetailView2_get_queryset"
| "farm_get_queryset_of _ = None"

fun farm_perform_create_of ::
  "py_def \<Rightarrow> ((string \<Rightarrow> int option) \<Rightarrow> request \<Rightarrow> farm_serializer \<Rightarrow> store \<Rightarrow> error + store) option" where
  "farm_perform_create_of FarmListCreateView_l28 = Some FarmListCreateView1_perform_create"
| "farm_perform_create_of FarmListCreateView_l93 = Some FarmListCreateView2_perform_create"
| "farm_perform_create_of _ = None"

definition farm_endpoint_queryset :: "string \<Rightarrow> request \<Rightarrow> store \<Rightarrow> farm list option" where
  "farm_endpoint_queryset name req st =
    (case module_namespace name of
       None \<Rightarrow> None
     | Some d \<Rightarrow>
         (case farm_get_queryset_of d of
            None \<Rightarrow> None
          | Some q \<Rightarrow> Some (q req st)))"

definition farm_endpoint_create ::
  "(string \<Rightarrow> int option) \<Rightarrow> request \<Rightarrow> farm_serializer \<Rightarrow> store \<Rightarrow> (error + store) option" where
  "farm_endpoint_create py_int req serializer st =
    (case module_namespace ''FarmListCreateView'' of
       None \<Rightarrow> None
     | Some d \<Rightarrow>
         (case farm_perform_create_of d of
            None \<Rightarrow> None
          | Some c \<Rightarrow> Some (c py_int req serializer st)))"

section \<open>Effective owners and well-formed stores\<close>

text \<open>
  The effective owner of a Motor is the owner of its Farm, that of a Valve the owner of
  its Motor's Farm. Keys are unique within a table.
\<close>

definition farm_of :: "store \<Rightarrow> pk \<Rightarrow> farm option" where
  "farm_of st fid = find (\<lambda>f. farm_pk f = fid) (farms st)"

definition motor_of :: "store \<Rightarrow> pk \<Rightarrow> motor option" where
  "motor_of st mid = find (\<lambda>m. motor_pk m = mid) (motors st)"

definition motor_owner :: "store \<Rightarrow> motor \<Rightarrow> pk option" where
  "motor_owner st m = map_option farm_owner (farm_of st (motor_farm_id m))"

definition valve_owner :: "store \<Rightarrow> valve \<Rightarrow> pk option" where
  "valve_owner st v =
    (case motor_of st (valve_motor_id v) of None \<Rightarrow> None | Some m \<Rightarrow> motor_owner st m)"

definition unique_keys :: "store \<Rightarrow> bool" where
  "unique_keys st \<longleftrightarrow>
     distinct (map farm_pk (farms st)) \<and> distinct (map motor_pk (motors st))
     \<and> distinct (map valve_pk (valves st))"

section \<open>Sample data\<close>

definition admin1 :: user where "admin1 = \<lparr>user_pk = 1, role = ''admin''\<rparr>"
definition user2 :: user where "user2 = \<lparr>user_pk = 2, role = ''user''\<rparr>"
definition user3 :: user where "user3 = \<lparr>user_pk = 3, role = ''user''\<rparr>"

definition sample_store :: store where
  "sample_store =
    \<lparr>users = [admin1, user2, user3],
     farms = [\<lparr>farm_pk = 10, farm_owner = 2\<rparr>, \<lparr>farm_pk = 11, farm_owner = 3\<rparr>],
     motors = [\<lparr>motor_pk = 20, motor_farm_id = 10\<rparr>, \<lparr>motor_pk = 21, motor_farm_id = 11\<rparr>],
     valves = [\<lparr>valve_pk = 30, valve_motor_id = 20\<rparr>, \<lparr>valve_pk = 31, valve_motor_id = 21\<rparr>],
     farm_seq = 11, motor_seq = 21, valve_seq = 31\<rparr>"

definition request_of :: "user \<Rightarrow> (string \<rightharpoonup> pyval) \<Rightarrow> (string \<rightharpoonup> pk) \<Rightarrow> request" where
  "request_of u d kw = \<lparr>req_user = u, req_data = d, kwargs = kw\<rparr>"

text \<open>A reading of text as a key that accepts no text, and a handler that echoes its input.\<close>

definition no_text_key :: "string \<Rightarrow> int option" where
  "no_text_key s = None"

definition echo :: "verb \<Rightarrow> 'o \<Rightarrow> store \<Rightarrow> verb \<times> 'o" where
  "echo vb obj st = (vb, obj)"

section \<open>Auxiliary facts\<close>

lemma list_ex_unique_key:
  "distinct (map key xs) \<Longrightarrow>
   list_ex (\<lambda>x. key x = k \<and> P x) xs \<longleftrightarrow>
     (case find (\<lambda>x. key x = k) xs of None \<Rightarrow> False | Some x \<Rightarrow> P x)"
proof (induction xs)
  case Nil
  then show ?case by simp
next
  case (Cons x xs)
  show ?case
  proof (cases "key x = k")
    case True
    from Cons.prems have "key x \<notin> key ` set xs" by simp
    with True have "\<forall>y\<in>set xs. key y \<noteq> k" by blast
    then have "\<not> list_ex (\<lambda>y. key y = k \<and> P y) xs" by (simp add: list_ex_iff)
    with True show ?thesis by simp
  next
    case False
    with Cons show ?thesis by simp
  qed
qed

lemma farm_user_is_owner:
  "distinct (map farm_pk (farms st)) \<Longrightarrow>
   farm_user_is st fid uid \<longleftrightarrow> map_option farm_owner (farm_of st fid) = Some uid"
  unfolding farm_user_is_def farm_of_def
  by (simp add: list_ex_unique_key split: option.splits)

lemma motor_farm_user_is_owner:
  "unique_keys st \<Longrightarrow>
   motor_farm_user_is st mid uid \<longleftrightarrow>
     (case motor_of st mid of None \<Rightarrow> None | Some m \<Rightarrow> motor_owner st m) = Some uid"
  unfolding motor_farm_user_is_def motor_of_def motor_owner_def unique_keys_def
  by (simp add: list_ex_unique_key farm_user_is_owner split: option.splits)

lemma namespace_FarmListCreateView:
  "module_namespace ''FarmListCreateView'' = Some FarmListCreateView_l93"
  by (simp add: module_namespace_def views_py_def bind_name_def)

lemma namespace_FarmDetailView:
  "module_namespace ''FarmDetailView'' = Some FarmDetailView_l100"
  by (simp add: module_namespace_def views_py_def bind_name_def)

lemma get_object_NotFound_iff:
  "get_object key qs k = Inl NotFound \<longleftrightarrow> k \<notin> key ` set qs"
  unfolding get_object_def
  by (induction qs) auto

lemma get_object_Inr:
  "get_object key qs k = Inr obj \<Longrightarrow> obj \<in> set qs \<and> key obj = k"
  unfolding get_object_def
  by (induction qs) (auto split: if_splits)

lemma key_outside_scope:
  assumes "distinct (map key xs)" and "set qs \<subseteq> set xs" and "x \<in> set xs" and "x \<notin> set qs"
  shows "key x \<notin> key ` set qs"
proof
  assume "key x \<in> key ` set qs"
  then obtain y where y: "y \<in> set qs" "key y = key x" by auto
  with assms(2) have "y \<in> set xs" by auto
  with assms(1,3) y(2) have "y = x" by (metis distinct_map inj_onD)
  with y(1) assms(4) show False by simp
qed

lemma detail_not_found:
  "(case get_object key qs k of Inl e \<Rightarrow> Inl e | Inr obj \<Rightarrow> Inr (h obj)) = Inl NotFound
     \<longleftrightarrow> k \<notin> key ` set qs"
  using get_object_NotFound_iff [of key qs k]
  by (auto split: sum.splits)

lemma detail_found:
  "(case get_object key qs k of Inl e \<Rightarrow> Inl e | Inr obj \<Rightarrow> Inr (h obj)) = Inr r
     \<Longrightarrow> \<exists>obj\<in>set qs. key obj = k \<and> r = h obj"
  using get_object_Inr [of key qs k]
  by (auto split: sum.splits)

lemma scoped_farms_subset: "set (FarmDetailView2_get_queryset req st) \<subseteq> set (farms st)"
  by (simp add: FarmDetailView2_get_queryset_def)

lemma scoped_motors_subset: "set (MotorDetailView_get_queryset req st) \<subseteq> set (motors st)"
  by (simp add: MotorDetailView_get_queryset_def)

lemma scoped_valves_subset: "set (ValveDetailView_get_queryset req st) \<subseteq> set (valves st)"
  by (simp add: ValveDetailView_get_queryset_def)

lemma farm_detail_scope:
  "(FarmDetailView2_request h vb req k st = Inl NotFound
      \<longleftrightarrow> k \<notin> farm_pk ` set (FarmDetailView2_get_queryset req st))
   \<and> (\<forall>r. FarmDetailView2_request h vb req k st = Inr r
        \<longrightarrow> (\<exists>obj\<in>set (FarmDetailView2_get_queryset req st). farm_pk obj = k \<and> r = h vb obj st))
   \<and> (unique_keys st \<and> f \<in> set (farms st) \<and> f \<notin> set (FarmDetailView2_get_queryset req st)
        \<longrightarrow> FarmDetailView2_request h vb req (farm_pk f) st = Inl NotFound)"
  unfolding FarmDetailView2_request_def
  using detail_not_found [where key = farm_pk and qs = "FarmDetailView2_get_queryset req st"
      and h = "\<lambda>obj. h vb obj st"]
    detail_found [where key = farm_pk and qs = "FarmDetailView2_get_queryset req st" and k = k
      and h = "\<lambda>obj. h vb obj st"]
    key_outside_scope [where key = farm_pk and xs = "farms st"
      and qs = "FarmDetailView2_get_queryset req st" and x = f]
    scoped_farms_subset [of req st]
  by (auto simp: unique_keys_def)

lemma motor_detail_scope:
  "(MotorDetailView_request h vb req k st = Inl NotFound
      \<longleftrightarrow> k \<notin> motor_pk ` set (MotorDetailView_get_queryset req st))
   \<and> (\<forall>r. MotorDetailView_request h vb req k st = Inr r
        \<longrightarrow> (\<exists>obj\<in>set (MotorDetailView_get_queryset req st). motor_pk obj = k \<and> r = h vb obj st))
   \<and> (unique_keys st \<and> m \<in> set (motors st) \<and> m \<notin> set (MotorDetailView_get_queryset req st)
        \<longrightarrow> MotorDetailView_request h vb req (motor_pk m) st = Inl NotFound)"
  unfolding MotorDetailView_request_def
  using detail_not_found [where key = motor_pk and qs = "MotorDetailView_get_queryset req st"
      and h = "\<lambda>obj. h vb obj st"]
    detail_found [where key = motor_pk and qs = "MotorDetailView_get_queryset req st" and k = k
      and h = "\<lambda>obj. h vb obj st"]
    key_outside_scope [where key = motor_pk and xs = "motors st"
      and qs = "MotorDetailView_get_queryset req st" and x = m]
    scoped_motors_subset [of req st]
  by (auto simp: unique_keys_def)

lemma valve_detail_scope:
  "(ValveDetailView_request h vb req k st = Inl NotFound
      \<longleftrightarrow> k \<notin> valve_pk ` set (ValveDetailView_get_queryset req st))
   \<and> (\<forall>r. ValveDetailView_request h vb req k st = Inr r
        \<longrightarrow> (\<exists>obj\<in>set (ValveDetailView_get_queryset req st). valve_pk obj = k \<and> r = h vb obj st))
   \<and> (unique_keys st \<and> v \<in> set (valves st) \<and> v \<notin> set (ValveDetailView_get_queryset req st)
        \<longrightarrow> ValveDetailView_request h vb req (valve_pk v) st = Inl NotFound)"
  unfolding ValveDetailView_request_def
  using detail_not_found [where key = valve_pk and qs = "ValveDetailView_get_queryset req st"
      and h = "\<lambda>obj. h vb obj st"]
    detail_found [where key = valve_pk and qs = "ValveDetailView_get_queryset req st" and k = k
      and h = "\<lambda>obj. h vb obj st"]
    key_outside_scope [where key = valve_pk and xs = "valves st"
      and qs = "ValveDetailView_get_queryset req st" and x = v]
    scoped_valves_subset [of req st]
  by (auto simp: unique_keys_def)

lemma insert_farm_existing:
  "u \<in> set (users st) \<Longrightarrow>
   insert_farm st (int (user_pk u)) =
     Inr (st\<lparr>farms := farms st @
            [\<lparr>farm_pk = next_pk (farm_seq st) (map farm_pk (farms st)),
              farm_owner = user_pk u\<rparr>],
          farm_seq := next_pk (farm_seq st) (map farm_pk (farms st))\<rparr>)"
  by (simp add: insert_farm_def)

lemma next_pk_sample: "next_pk (farm_seq sample_store) (map farm_pk (farms sample_store)) = 12"
  by (simp add: next_pk_def sample_store_def)

lemma sample_unique: "unique_keys sample_store"
  by (simp add: unique_keys_def sample_store_def)

section \<open>Farm list scoping\<close>

text \<open>
  The first \<^verbatim>\<open>FarmListCreateView.get_queryset\<close> (lines 36 to 43) implements the role
  rule its docstring states: a caller whose role is admin or manager gets every Farm of the
  store, any other caller the Farms whose owner is the caller.
\<close>

lemma first_get_queryset_role_rule:
  "f \<in> set (FarmListCreateView1_get_queryset req st)
     \<longleftrightarrow> f \<in> set (farms st)
         \<and> (role (req_user req) = ''admin'' \<or> role (req_user req) = ''manager''
              \<or> farm_owner f = user_pk (req_user req))"
  by (auto simp: FarmListCreateView1_get_queryset_def Let_def)

text \<open>
  C1, evaluated at a concrete input: an admin lists the farms of a store that holds a farm
  of user 2. The list endpoint is served by the class of line 93, which filters on the
  caller alone: the admin's collection is empty, where C1 puts every Farm in it.
\<close>

theorem farm_list_in_effect_hides_farm_from_admin:
  "farm_endpoint_queryset ''FarmListCreateView'' (request_of admin1 Map.empty Map.empty)
       sample_store = Some []
   \<and> role admin1 = ''admin''
   \<and> \<lparr>farm_pk = 10, farm_owner = 2\<rparr> \<in> set (farms sample_store)"
  by (simp add: farm_endpoint_queryset_def namespace_FarmListCreateView
      FarmListCreateView2_get_queryset_def request_of_def admin1_def sample_store_def)

text \<open>
  C8: executing the module leaves \<^verbatim>\<open>FarmListCreateView\<close> and \<^verbatim>\<open>FarmDetailView\<close> bound
  to their second definitions, so for every caller, whatever the role, the list and detail
  querysets in effect are exactly the farms whose owning reference is the caller, and create
  saves the serializer with no owner argument.
\<close>

theorem second_definitions_in_effect:
  "module_namespace ''FarmListCreateView'' = Some FarmListCreateView_l93
   \<and> module_namespace ''FarmDetailView'' = Some FarmDetailView_l100
   \<and> farm_endpoint_queryset ''FarmListCreateView'' req st
       = Some (filter (\<lambda>f. farm_owner f = user_pk (req_user req)) (farms st))
   \<and> farm_endpoint_queryset ''FarmDetailView'' req st
       = Some (filter (\<lambda>f. farm_owner f = user_pk (req_user req)) (farms st))
   \<and> farm_endpoint_create py_int req serializer st
       = Some (FarmSerializer_save py_int serializer No_kwargs st)"
  by (simp add: farm_endpoint_queryset_def farm_endpoint_create_def
      namespace_FarmListCreateView namespace_FarmDetailView
      FarmListCreateView2_get_queryset_def FarmDetailView2_get_queryset_def
      FarmListCreateView2_perform_create_def)

theorem second_definitions_in_effect_witness:
  "farm_endpoint_queryset ''FarmListCreateView'' (request_of admin1 Map.empty Map.empty)
       sample_store = Some []
   \<and> farm_endpoint_queryset ''FarmDetailView'' (request_of user2 Map.empty Map.empty)
       sample_store = Some [\<lparr>farm_pk = 10, farm_owner = 2\<rparr>]"
  using second_definitions_in_effect [of "request_of admin1 Map.empty Map.empty" sample_store]
    second_definitions_in_effect [of "request_of user2 Map.empty Map.empty" sample_store]
  by (simp add: request_of_def admin1_def user2_def sample_store_def)

section \<open>The access policy predicate\<close>

text \<open>
  C6: \<^verbatim>\<open>has_object_permission\<close> allows every caller whose role is admin or manager,
  whatever the object; for every other caller it allows iff the object's owner is the caller.
  It is a function of the request and the object alone and returns only the decision.
\<close>

theorem access_policy:
  "(role (req_user req) \<in> set [''admin'', ''manager''] \<longrightarrow> has_object_permission req obj)
   \<and> (role (req_user req) \<notin> set [''admin'', ''manager'']
        \<longrightarrow> (has_object_permission req obj \<longleftrightarrow> farm_owner obj = user_pk (req_user req)))"
  by (simp add: has_object_permission_def)

theorem access_policy_witness:
  "has_object_permission (request_of admin1 Map.empty Map.empty) \<lparr>farm_pk = 10, farm_owner = 2\<rparr>
   \<and> has_object_permission (request_of user2 Map.empty Map.empty) \<lparr>farm_pk = 10, farm_owner = 2\<rparr>
   \<and> \<not> has_object_permission (request_of user3 Map.empty Map.empty) \<lparr>farm_pk = 10, farm_owner = 2\<rparr>"
  using access_policy [of "request_of admin1 Map.empty Map.empty" "\<lparr>farm_pk = 10, farm_owner = 2\<rparr>"]
    access_policy [of "request_of user2 Map.empty Map.empty" "\<lparr>farm_pk = 10, farm_owner = 2\<rparr>"]
    access_policy [of "request_of user3 Map.empty Map.empty" "\<lparr>farm_pk = 10, farm_owner = 2\<rparr>"]
  by (simp add: request_of_def admin1_def user2_def user3_def)

section \<open>Motor and Valve list scoping\<close>

text \<open>
  C5: in a store with unique keys, for every caller U of any role, a Motor M is in U's
  scoped Motor collection for the path parameter \<^verbatim>\<open>farm_id\<close> iff M is a motor of the store,
  M's farm is \<^verbatim>\<open>farm_id\<close> and the owner of M's farm is U; a Valve V is in U's scoped Valve
  collection for \<^verbatim>\<open>motor_id\<close> iff V is a valve of the store, V's motor is \<^verbatim>\<open>motor_id\<close>
  and the owner of the farm of V's motor is U. The role is not read.
\<close>

theorem motor_valve_scoping:
  assumes "unique_keys st"
  shows "(m \<in> set (MotorListCreateView_get_queryset req st)
            \<longleftrightarrow> m \<in> set (motors st) \<and> kwargs req ''farm_id'' = Some (motor_farm_id m)
                \<and> motor_owner st m = Some (user_pk (req_user req)))
         \<and> (v \<in> set (ValveListCreateView_get_queryset req st)
            \<longleftrightarrow> v \<in> set (valves st) \<and> kwargs req ''motor_id'' = Some (valve_motor_id v)
                \<and> valve_owner st v = Some (user_pk (req_user req)))"
proof -
  from assms have d: "distinct (map farm_pk (farms st))" by (simp add: unique_keys_def)
  have motor: "m \<in> set (MotorListCreateView_get_queryset req st)
            \<longleftrightarrow> m \<in> set (motors st) \<and> kwargs req ''farm_id'' = Some (motor_farm_id m)
                \<and> motor_owner st m = Some (user_pk (req_user req))"
    using farm_user_is_owner [OF d]
    by (auto simp: MotorListCreateView_get_queryset_def motor_owner_def Let_def)
  have valve: "v \<in> set (ValveListCreateView_get_queryset req st)
            \<longleftrightarrow> v \<in> set (valves st) \<and> kwargs req ''motor_id'' = Some (valve_motor_id v)
                \<and> valve_owner st v = Some (user_pk (req_user req))"
    using motor_farm_user_is_owner [OF assms]
    by (auto simp: ValveListCreateView_get_queryset_def valve_owner_def Let_def)
  from motor valve show ?thesis by blast
qed

theorem motor_valve_scoping_witness:
  "unique_keys sample_store
   \<and> \<lparr>motor_pk = 20, motor_farm_id = 10\<rparr>
        \<in> set (MotorListCreateView_get_queryset
                (request_of user2 Map.empty [''farm_id'' \<mapsto> 10]) sample_store)
   \<and> \<lparr>motor_pk = 20, motor_farm_id = 10\<rparr>
        \<notin> set (MotorListCreateView_get_queryset
                (request_of admin1 Map.empty [''farm_id'' \<mapsto> 10]) sample_store)
   \<and> \<lparr>valve_pk = 30, valve_motor_id = 20\<rparr>
        \<in> set (ValveListCreateView_get_queryset
                (request_of user2 Map.empty [''motor_id'' \<mapsto> 20]) sample_store)
   \<and> \<lparr>valve_pk = 30, valve_motor_id = 20\<rparr>
        \<notin> set (ValveListCreateView_get_queryset
                (request_of admin1 Map.empty [''motor_id'' \<mapsto> 20]) sample_store)"
proof -
  let ?m = "\<lparr>motor_pk = 20, motor_farm_id = 10\<rparr>"
  let ?v = "\<lparr>valve_pk = 30, valve_motor_id = 20\<rparr>"
  note u = sample_unique
  show ?thesis
    using u
      motor_valve_scoping [OF u, of ?m "request_of user2 Map.empty [''farm_id'' \<mapsto> 10]" ?v]
      motor_valve_scoping [OF u, of ?m "request_of admin1 Map.empty [''farm_id'' \<mapsto> 10]" ?v]
      motor_valve_scoping [OF u, of ?m "request_of user2 Map.empty [''motor_id'' \<mapsto> 20]" ?v]
      motor_valve_scoping [OF u, of ?m "request_of admin1 Map.empty [''motor_id'' \<mapsto> 20]" ?v]
    by (simp add: request_of_def admin1_def user2_def sample_store_def
        motor_owner_def valve_owner_def farm_of_def motor_of_def)
qed

section \<open>Farm create\<close>

text \<open>
  The first \<^verbatim>\<open>FarmListCreateView.perform_create\<close> (lines 45 to 62) does what its
  docstring and comments state. For a caller of the store whose role is neither admin nor
  manager, whatever the payload and the validated serializer, one Farm is added and its owner
  is the caller.
\<close>

lemma regular_caller_owns_new_farm:
  assumes "role (req_user req) \<notin> set [''admin'', ''manager'']"
    and "req_user req \<in> set (users st)"
  shows "FarmListCreateView1_perform_create py_int (req\<lparr>req_data := d\<rparr>) serializer st
     = Inr (st\<lparr>farms := farms st @
              [\<lparr>farm_pk = next_pk (farm_seq st) (map farm_pk (farms st)),
                farm_owner = user_pk (req_user req)\<rparr>],
            farm_seq := next_pk (farm_seq st) (map farm_pk (farms st))\<rparr>)"
  using assms
  by (simp add: FarmListCreateView1_perform_create_def FarmSerializer_save_def
      insert_farm_existing)

text \<open>
  For a caller whose role is admin or manager: a truthy payload owner that reads as the key
  of a user of the store becomes the owner of the one Farm added, and with no owner in the
  payload the one Farm added is owned by the caller.
\<close>

lemma privileged_caller_chooses_owner:
  assumes "role (req_user req) \<in> set [''admin'', ''manager'']"
  shows "(truthy (dict_get (req_data req) ''owner'')
            \<and> raw_key py_int (dict_get (req_data req) ''owner'') = Inr (int x)
            \<and> x \<in> set (map user_pk (users st))
          \<longrightarrow> FarmListCreateView1_perform_create py_int req serializer st
              = Inr (st\<lparr>farms := farms st @
                       [\<lparr>farm_pk = next_pk (farm_seq st) (map farm_pk (farms st)),
                         farm_owner = x\<rparr>],
                     farm_seq := next_pk (farm_seq st) (map farm_pk (farms st))\<rparr>))
         \<and> (req_data req ''owner'' = None \<and> req_user req \<in> set (users st)
          \<longrightarrow> FarmListCreateView1_perform_create py_int req serializer st
              = Inr (st\<lparr>farms := farms st @
                       [\<lparr>farm_pk = next_pk (farm_seq st) (map farm_pk (farms st)),
                         farm_owner = user_pk (req_user req)\<rparr>],
                     farm_seq := next_pk (farm_seq st) (map farm_pk (farms st))\<rparr>))"
proof (intro conjI impI)
  assume a: "truthy (dict_get (req_data req) ''owner'')
     \<and> raw_key py_int (dict_get (req_data req) ''owner'') = Inr (int x)
     \<and> x \<in> set (map user_pk (users st))"
  then have "int x \<in> set (map (\<lambda>u. int (user_pk u)) (users st))" by auto
  with a assms show "FarmListCreateView1_perform_create py_int req serializer st
              = Inr (st\<lparr>farms := farms st @
                       [\<lparr>farm_pk = next_pk (farm_seq st) (map farm_pk (farms st)),
                         farm_owner = x\<rparr>],
                     farm_seq := next_pk (farm_seq st) (map farm_pk (farms st))\<rparr>)"
    by (simp add: FarmListCreateView1_perform_create_def FarmSerializer_save_def
        insert_farm_def Let_def)
next
  assume b: "req_data req ''owner'' = None \<and> req_user req \<in> set (users st)"
  then have "\<not> truthy (dict_get (req_data req) ''owner'')" by (simp add: dict_get_def)
  with b assms show "FarmListCreateView1_perform_create py_int req serializer st
              = Inr (st\<lparr>farms := farms st @
                       [\<lparr>farm_pk = next_pk (farm_seq st) (map farm_pk (farms st)),
                         farm_owner = user_pk (req_user req)\<rparr>],
                     farm_seq := next_pk (farm_seq st) (map farm_pk (farms st))\<rparr>)"
    by (simp add: FarmListCreateView1_perform_create_def FarmSerializer_save_def
        insert_farm_existing Let_def)
qed

text \<open>
  C2, evaluated at a concrete input: user 3, a regular user, posts a Farm whose payload
  names user 2 as owner. The create in effect is that of the class of line 93, which saves
  the validated data as it is: the new Farm belongs to user 2, where C2 gives it to the
  caller.
\<close>

theorem farm_create_in_effect_takes_payload_owner:
  "farm_endpoint_create no_text_key (request_of user3 [''owner'' \<mapsto> PInt 2] Map.empty)
      \<lparr>validated_owner = Some 2\<rparr> sample_store
     = Some (Inr (sample_store\<lparr>farms := farms sample_store @ [\<lparr>farm_pk = 12, farm_owner = 2\<rparr>],
                               farm_seq := 12\<rparr>))
   \<and> role user3 \<notin> set [''admin'', ''manager'']
   \<and> user_pk user3 = 3"
  by (simp add: farm_endpoint_create_def namespace_FarmListCreateView
      FarmListCreateView2_perform_create_def FarmSerializer_save_def insert_farm_def
      next_pk_def sample_store_def admin1_def user2_def user3_def)

text \<open>
  C3, evaluated at a concrete input: an admin of the store posts a Farm with no owner. The
  create in effect hands no owner to the store, which refuses the row: no Farm owned by the
  caller is written, where C3 has the new Farm owned by the caller.
\<close>

theorem farm_create_in_effect_has_no_default_owner:
  "farm_endpoint_create no_text_key (request_of admin1 Map.empty Map.empty)
      \<lparr>validated_owner = None\<rparr> sample_store = Some (Inl IntegrityError)
   \<and> role admin1 = ''admin''
   \<and> admin1 \<in> set (users sample_store)"
  by (simp add: farm_endpoint_create_def namespace_FarmListCreateView
      FarmListCreateView2_perform_create_def FarmSerializer_save_def sample_store_def
      admin1_def)

text \<open>
  C9: in the first \<^verbatim>\<open>FarmListCreateView.perform_create\<close>, for a caller whose role is admin
  or manager and a payload whose owner is falsy (0, the empty string, null, or absent), the
  serializer is saved with \<^verbatim>\<open>owner\<close> set to the caller: the result is that of the same
  request with the owner field removed, the falsy value is not handed to the store, and when
  the caller is a user of the store one Farm is added, owned by the caller.
\<close>

theorem falsy_owner_defaults_to_caller:
  assumes "role (req_user req) \<in> set [''admin'', ''manager'']"
    and "\<not> truthy (dict_get (req_data req) ''owner'')"
  shows "FarmListCreateView1_perform_create py_int req serializer st
           = FarmSerializer_save py_int serializer (Owner_kw (req_user req)) st
         \<and> FarmListCreateView1_perform_create py_int req serializer st
           = FarmListCreateView1_perform_create py_int
               (req\<lparr>req_data := (req_data req)(''owner'' := None)\<rparr>) serializer st
         \<and> (req_user req \<in> set (users st)
            \<longrightarrow> FarmListCreateView1_perform_create py_int req serializer st
              = Inr (st\<lparr>farms := farms st @
                       [\<lparr>farm_pk = next_pk (farm_seq st) (map farm_pk (farms st)),
                         farm_owner = user_pk (req_user req)\<rparr>],
                     farm_seq := next_pk (farm_seq st) (map farm_pk (farms st))\<rparr>))"
  using assms
  by (simp add: FarmListCreateView1_perform_create_def FarmSerializer_save_def
      insert_farm_existing Let_def dict_get_def)

theorem falsy_owner_defaults_to_caller_witness:
  "FarmListCreateView1_perform_create no_text_key
      (request_of admin1 [''owner'' \<mapsto> PInt 0] Map.empty) \<lparr>validated_owner = Some 0\<rparr>
      sample_store
     = Inr (sample_store\<lparr>farms := farms sample_store @ [\<lparr>farm_pk = 12, farm_owner = 1\<rparr>],
                         farm_seq := 12\<rparr>)
   \<and> FarmListCreateView1_perform_create no_text_key
      (request_of admin1 [''owner'' \<mapsto> PStr ''''] Map.empty) \<lparr>validated_owner = None\<rparr>
      sample_store
     = Inr (sample_store\<lparr>farms := farms sample_store @ [\<lparr>farm_pk = 12, farm_owner = 1\<rparr>],
                         farm_seq := 12\<rparr>)
   \<and> FarmListCreateView1_perform_create no_text_key
      (request_of admin1 [''owner'' \<mapsto> PNone] Map.empty) \<lparr>validated_owner = None\<rparr>
      sample_store
     = Inr (sample_store\<lparr>farms := farms sample_store @ [\<lparr>farm_pk = 12, farm_owner = 1\<rparr>],
                         farm_seq := 12\<rparr>)"
proof -
  have r: "role (req_user (request_of admin1 d Map.empty)) \<in> set [''admin'', ''manager'']" for d
    by (simp add: request_of_def admin1_def)
  have f0: "\<not> truthy (dict_get (req_data (request_of admin1 [''owner'' \<mapsto> PInt 0] Map.empty)) ''owner'')"
    by (simp add: request_of_def dict_get_def)
  have f1: "\<not> truthy (dict_get (req_data (request_of admin1 [''owner'' \<mapsto> PStr ''''] Map.empty)) ''owner'')"
    by (simp add: request_of_def dict_get_def)
  have f2: "\<not> truthy (dict_get (req_data (request_of admin1 [''owner'' \<mapsto> PNone] Map.empty)) ''owner'')"
    by (simp add: request_of_def dict_get_def)
  have u: "req_user (request_of admin1 d Map.empty) \<in> set (users sample_store)" for d
    by (simp add: request_of_def sample_store_def)
  show ?thesis
    using falsy_owner_defaults_to_caller [where py_int = no_text_key and st = sample_store
        and serializer = "\<lparr>validated_owner = Some 0\<rparr>", OF r f0, THEN conjunct2, THEN conjunct2]
      falsy_owner_defaults_to_caller [where py_int = no_text_key and st = sample_store
        and serializer = "\<lparr>validated_owner = None\<rparr>", OF r f1, THEN conjunct2, THEN conjunct2]
      falsy_owner_defaults_to_caller [where py_int = no_text_key and st = sample_store
        and serializer = "\<lparr>validated_owner = None\<rparr>", OF r f2, THEN conjunct2, THEN conjunct2]
      u
    by (simp add: next_pk_sample) (simp add: request_of_def admin1_def)
qed

section \<open>Motor and Valve create\<close>

text \<open>
  C4, evaluated at a concrete input: user 3 posts a Motor under farm 10 and a Valve under
  motor 20, both of which belong to user 2. Neither create reads the caller or the path
  parameter: both rows are written.
\<close>

theorem create_in_foreign_parent:
  "MotorListCreateView_perform_create
      (request_of user3 [''farm'' \<mapsto> PInt 10] [''farm_id'' \<mapsto> 10])
      \<lparr>validated_farm = 10\<rparr> sample_store
     = Inr (sample_store\<lparr>motors := motors sample_store @ [\<lparr>motor_pk = 22, motor_farm_id = 10\<rparr>],
                         motor_seq := 22\<rparr>)
   \<and> motor_owner sample_store \<lparr>motor_pk = 22, motor_farm_id = 10\<rparr> = Some 2
   \<and> ValveListCreateView_perform_create
      (request_of user3 [''motor'' \<mapsto> PInt 20] [''motor_id'' \<mapsto> 20])
      \<lparr>validated_motor = 20\<rparr> sample_store
     = Inr (sample_store\<lparr>valves := valves sample_store @ [\<lparr>valve_pk = 32, valve_motor_id = 20\<rparr>],
                         valve_seq := 32\<rparr>)
   \<and> valve_owner sample_store \<lparr>valve_pk = 32, valve_motor_id = 20\<rparr> = Some 2
   \<and> user_pk user3 = 3"
  by (simp add: MotorListCreateView_perform_create_def MotorSerializer_save_def
      ValveListCreateView_perform_create_def ValveSerializer_save_def
      next_pk_def sample_store_def farm_of_def motor_of_def valve_owner_def motor_owner_def
      user3_def)

section \<open>Retrieve, update and delete within the scoped collection\<close>

text \<open>
  C7: for every verb (retrieve, update, delete) and every resource type (Farm, Motor,
  Valve), the request fails with not-found exactly when no row of the caller's scoped
  collection has the requested id; a request that succeeds acts on a row of the scoped
  collection with that id; and in a store with unique keys, a row that exists but is outside
  the caller's scoped collection gives the same not-found.
\<close>

theorem detail_lookup_within_scope:
  "((FarmDetailView2_request hf vb req k st = Inl NotFound
      \<longleftrightarrow> k \<notin> farm_pk ` set (FarmDetailView2_get_queryset req st))
   \<and> (\<forall>r. FarmDetailView2_request hf vb req k st = Inr r
        \<longrightarrow> (\<exists>obj\<in>set (FarmDetailView2_get_queryset req st). farm_pk obj = k \<and> r = hf vb obj st))
   \<and> (unique_keys st \<and> f \<in> set (farms st) \<and> f \<notin> set (FarmDetailView2_get_queryset req st)
        \<longrightarrow> FarmDetailView2_request hf vb req (farm_pk f) st = Inl NotFound))
   \<and> ((MotorDetailView_request hm vb req k st = Inl NotFound
      \<longleftrightarrow> k \<notin> motor_pk ` set (MotorDetailView_get_queryset req st))
   \<and> (\<forall>r. MotorDetailView_request hm vb req k st = Inr r
        \<longrightarrow> (\<exists>obj\<in>set (MotorDetailView_get_queryset req st). motor_pk obj = k \<and> r = hm vb obj st))
   \<and> (unique_keys st \<and> m \<in> set (motors st) \<and> m \<notin> set (MotorDetailView_get_queryset req st)
        \<longrightarrow> MotorDetailView_request hm vb req (motor_pk m) st = Inl NotFound))
   \<and> ((ValveDetailView_request hv vb req k st = Inl NotFound
      \<longleftrightarrow> k \<notin> valve_pk ` set (ValveDetailView_get_queryset req st))
   \<and> (\<forall>r. ValveDetailView_request hv vb req k st = Inr r
        \<longrightarrow> (\<exists>obj\<in>set (ValveDetailView_get_queryset req st). valve_pk obj = k \<and> r = hv vb obj st))
   \<and> (unique_keys st \<and> v \<in> set (valves st) \<and> v \<notin> set (ValveDetailView_get_queryset req st)
        \<longrightarrow> ValveDetailView_request hv vb req (valve_pk v) st = Inl NotFound))"
  using farm_detail_scope [of hf vb req k st f] motor_detail_scope [of hm vb req k st m]
    valve_detail_scope [of hv vb req k st v]
  by (intro conjI) blast+

theorem detail_lookup_within_scope_witness:
  "FarmDetailView2_request echo Retrieve (request_of user3 Map.empty Map.empty) 10 sample_store
     = Inl NotFound
   \<and> FarmDetailView2_request echo Retrieve (request_of user2 Map.empty Map.empty) 10 sample_store
     = Inr (Retrieve, \<lparr>farm_pk = 10, farm_owner = 2\<rparr>)
   \<and> MotorDetailView_request echo Update
        (request_of user3 Map.empty [''farm_id'' \<mapsto> 10]) 20 sample_store
     = Inl NotFound
   \<and> ValveDetailView_request echo Destroy
        (request_of user3 Map.empty [''motor_id'' \<mapsto> 20]) 30 sample_store
     = Inl NotFound"
proof -
  let ?f = "\<lparr>farm_pk = 10, farm_owner = 2\<rparr>"
  let ?m = "\<lparr>motor_pk = 20, motor_farm_id = 10\<rparr>"
  let ?v = "\<lparr>valve_pk = 30, valve_motor_id = 20\<rparr>"
  note u = sample_unique
  have f: "?f \<in> set (farms sample_store)
      \<and> ?f \<notin> set (FarmDetailView2_get_queryset (request_of user3 Map.empty Map.empty) sample_store)"
    by (simp add: sample_store_def FarmDetailView2_get_queryset_def request_of_def user3_def)
  have m: "?m \<in> set (motors sample_store)
      \<and> ?m \<notin> set (MotorDetailView_get_queryset
                    (request_of user3 Map.empty [''farm_id'' \<mapsto> 10]) sample_store)"
    by (simp add: sample_store_def MotorDetailView_get_queryset_def farm_user_is_def
        request_of_def user3_def)
  have v: "?v \<in> set (valves sample_store)
      \<and> ?v \<notin> set (ValveDetailView_get_queryset
                    (request_of user3 Map.empty [''motor_id'' \<mapsto> 20]) sample_store)"
    by (simp add: sample_store_def ValveDetailView_get_queryset_def motor_farm_user_is_def
        farm_user_is_def request_of_def user3_def)
  have found: "FarmDetailView2_request echo Retrieve (request_of user2 Map.empty Map.empty) 10
      sample_store = Inr (Retrieve, ?f)"
    by (simp add: FarmDetailView2_request_def get_object_def FarmDetailView2_get_queryset_def
        sample_store_def request_of_def user2_def echo_def)
  show ?thesis
    using u f m v found
      detail_lookup_within_scope [where st = sample_store and k = 10
        and f = ?f and m = ?m and v = ?v and vb = Retrieve
        and req = "request_of user3 Map.empty Map.empty"
        and hf = echo and hm = echo and hv = echo]
      detail_lookup_within_scope [where st = sample_store and k = 10
        and f = ?f and m = ?m and v = ?v and vb = Update
        and req = "request_of user3 Map.empty [''farm_id'' \<mapsto> 10]"
        and hf = echo and hm = echo and hv = echo]
      detail_lookup_within_scope [where st = sample_store and k = 10
        and f = ?f and m = ?m and v = ?v and vb = Destroy
        and req = "request_of user3 Map.empty [''motor_id'' \<mapsto> 20]"
        and hf = echo and hm = echo and hv = echo]
    by simp
qed

text \<open>
  C10: in a store with unique keys, for every caller of any role and every verb, a detail
  request for a Motor of the store whose farm's owner is not the caller fails with not-found,
  and so does a detail request for a Valve of the store whose motor's farm's owner is not
  the caller. The role is not read, so admin and manager get the same answer.
\<close>

theorem motor_valve_detail_owner_only:
  assumes "unique_keys st"
  shows "(m \<in> set (motors st) \<and> motor_owner st m \<noteq> Some (user_pk (req_user req))
            \<longrightarrow> MotorDetailView_request hm vb req (motor_pk m) st = Inl NotFound)
         \<and> (v \<in> set (valves st) \<and> valve_owner st v \<noteq> Some (user_pk (req_user req))
            \<longrightarrow> ValveDetailView_request hv vb req (valve_pk v) st = Inl NotFound)"
proof (intro conjI impI)
  from assms have d: "distinct (map farm_pk (farms st))" by (simp add: unique_keys_def)
  assume a: "m \<in> set (motors st) \<and> motor_owner st m \<noteq> Some (user_pk (req_user req))"
  then have "m \<notin> set (MotorDetailView_get_queryset req st)"
    using farm_user_is_owner [OF d]
    by (simp add: MotorDetailView_get_queryset_def motor_owner_def Let_def)
  with a assms show "MotorDetailView_request hm vb req (motor_pk m) st = Inl NotFound"
    using motor_detail_scope [of hm vb req "motor_pk m" st m] by blast
next
  assume a: "v \<in> set (valves st) \<and> valve_owner st v \<noteq> Some (user_pk (req_user req))"
  then have "v \<notin> set (ValveDetailView_get_queryset req st)"
    using motor_farm_user_is_owner [OF assms]
    by (simp add: ValveDetailView_get_queryset_def valve_owner_def Let_def)
  with a assms show "ValveDetailView_request hv vb req (valve_pk v) st = Inl NotFound"
    using valve_detail_scope [of hv vb req "valve_pk v" st v] by blast
qed

theorem motor_valve_detail_owner_only_witness:
  "unique_keys sample_store
   \<and> role admin1 = ''admin''
   \<and> MotorDetailView_request echo Retrieve
        (request_of admin1 Map.empty [''farm_id'' \<mapsto> 10]) 20 sample_store
     = Inl NotFound
   \<and> ValveDetailView_request echo Destroy
        (request_of admin1 Map.empty [''motor_id'' \<mapsto> 20]) 30 sample_store
     = Inl NotFound"
proof -
  let ?m = "\<lparr>motor_pk = 20, motor_farm_id = 10\<rparr>"
  let ?v = "\<lparr>valve_pk = 30, valve_motor_id = 20\<rparr>"
  note u = sample_unique
  have m: "?m \<in> set (motors sample_store) \<and> motor_owner sample_store ?m = Some 2"
    by (simp add: sample_store_def motor_owner_def farm_of_def)
  have v: "?v \<in> set (valves sample_store) \<and> valve_owner sample_store ?v = Some 2"
    by (simp add: sample_store_def valve_owner_def motor_of_def motor_owner_def farm_of_def)
  show ?thesis
    using u m v
      motor_valve_detail_owner_only [OF u, where m = ?m and hm = echo and vb = Retrieve
        and req = "request_of admin1 Map.empty [''farm_id'' \<mapsto> 10]"
        and v = ?v and hv = echo]
      motor_valve_detail_owner_only [OF u, where v = ?v and hv = echo and vb = Destroy
        and req = "request_of admin1 Map.empty [''motor_id'' \<mapsto> 20]"
        and m = ?m and hm = echo]
    by (simp add: request_of_def admin1_def)
qed

end
